theory Spec2Isabelle
  imports Main
begin

section \<open>The DarkRP job generator (jobgeneratordarkrp.py)\<close>

text \<open>
  The program is one Python class, \<^verbatim>\<open>DarkRPJobGenerator\<close>, that asks questions on the
  console, renders a Lua job definition from the answers and can write the rendered jobs to a
  file. The embedding makes its effects explicit:
  \<^item> the console is a record: the lines still to be read from standard input and the
    chunks written to standard output so far;
  \<^item> \<^verbatim>\<open>input()\<close> at the end of the input raises \<^verbatim>\<open>EOFError\<close>, so every prompt loop
    is a recursion that consumes the finite list of pending lines;
  \<^item> exceptions are values of the type \<open>error\<close>, results are \<open>error + 'a\<close>;
  \<^item> the object's only field, \<^verbatim>\<open>self.jobs\<close>, is the record \<open>generator\<close>;
  \<^item> the file system is a map from file names to contents.

  Text is held as a list of bytes (UTF-8). Whitespace and letter case are those of ASCII;
  Python's treatment of non-ASCII whitespace, letters and digits, and the interpreter's limit on
  the number of digits of an integer conversion, are outside the model.
\<close>

subsection \<open>Python's string operations\<close>

definition NL :: char where
  "NL = CHR 0x0A"

definition DQ :: char where
  "DQ = CHR 0x22"

definition BSL :: char where
  "BSL = CHR 0x5C"

text \<open>\<^verbatim>\<open>str.isspace\<close> on ASCII: tab, line feed, vertical tab, form feed, carriage return,
  the four separators 0x1C to 0x1F, and the space.\<close>

definition is_space :: "char \<Rightarrow> bool" where
  "is_space c = (c \<in> set [CHR 0x09, CHR 0x0A, CHR 0x0B, CHR 0x0C, CHR 0x0D,
                           CHR 0x1C, CHR 0x1D, CHR 0x1E, CHR 0x1F, CHR 0x20])"

text \<open>\<^verbatim>\<open>s.strip()\<close>\<close>

definition strip :: "string \<Rightarrow> string" where
  "strip s = rev (dropWhile is_space (rev (dropWhile is_space s)))"

definition upper_letters :: string where
  "upper_letters = ''ABCDEFGHIJKLMNOPQRSTUVWXYZ''"

definition lower_letters :: string where
  "lower_letters = ''abcdefghijklmnopqrstuvwxyz''"

definition lower_char :: "char \<Rightarrow> char" where
  "lower_char c = (case map_of (zip upper_letters lower_letters) c of Some d \<Rightarrow> d | None \<Rightarrow> c)"

definition upper_char :: "char \<Rightarrow> char" where
  "upper_char c = (case map_of (zip lower_letters upper_letters) c of Some d \<Rightarrow> d | None \<Rightarrow> c)"

text \<open>\<^verbatim>\<open>s.lower()\<close> and \<^verbatim>\<open>s.upper()\<close>\<close>

definition lower :: "string \<Rightarrow> string" where
  "lower s = map lower_char s"

definition upper :: "string \<Rightarrow> string" where
  "upper s = map upper_char s"

text \<open>\<^verbatim>\<open>sep.join(xs)\<close>\<close>

fun join :: "string \<Rightarrow> string list \<Rightarrow> string" where
  "join sep [] = []"
| "join sep [x] = x"
| "join sep (x # y # ys) = x @ sep @ join sep (y # ys)"

text \<open>\<^verbatim>\<open>s.replace(" ", "")\<close> and \<^verbatim>\<open>s.replace('\n', '\\n')\<close>: both replace one
  character, the second by the two characters backslash and n.\<close>

definition remove_spaces :: "string \<Rightarrow> string" where
  "remove_spaces s = filter (\<lambda>c. c \<noteq> CHR '' '') s"

definition escape_newlines :: "string \<Rightarrow> string" where
  "escape_newlines s = concat (map (\<lambda>c. if c = NL then [BSL, CHR ''n''] else [c]) s)"

subsection \<open>Python's conversions between \<^verbatim>\<open>int\<close> and \<^verbatim>\<open>str\<close>\<close>

definition digits :: string where
  "digits = ''0123456789''"

definition is_digit :: "char \<Rightarrow> bool" where
  "is_digit c = (c \<in> set digits)"

definition digit_val :: "char \<Rightarrow> nat" where
  "digit_val c = (case map_of (zip digits [0, 1, 2, 3, 4, 5, 6, 7, 8, 9]) c of Some d \<Rightarrow> d | None \<Rightarrow> 0)"

definition digit_char :: "nat \<Rightarrow> char" where
  "digit_char d = digits ! d"

text \<open>\<^verbatim>\<open>str(n)\<close> for an integer: its decimal digits, after a minus sign when negative.\<close>

fun str_nat :: "nat \<Rightarrow> string" where
  "str_nat n = (if n < 10 then [digit_char n] else str_nat (n div 10) @ [digit_char (n mod 10)])"

declare str_nat.simps [simp del]

definition str_int :: "int \<Rightarrow> string" where
  "str_int i = (if i < 0 then CHR ''-'' # str_nat (nat (- i)) else str_nat (nat i))"

text \<open>\<^verbatim>\<open>str(b)\<close> for a boolean.\<close>

definition str_bool :: "bool \<Rightarrow> string" where
  "str_bool b = (if b then ''True'' else ''False'')"

text \<open>
  The literal accepted by \<^verbatim>\<open>int(s)\<close> in base ten, once the surrounding whitespace and an
  optional sign are removed: digits, where single underscores may stand between two digits.
  The flag of \<open>digits_ok\<close> says that the previous character was a digit.
\<close>

fun digits_ok :: "bool \<Rightarrow> string \<Rightarrow> bool" where
  "digits_ok prev [] = prev"
| "digits_ok prev (c # cs) =
     (if is_digit c then digits_ok True cs
      else if c = CHR ''_'' \<and> prev then digits_ok False cs
      else False)"

definition digits_value :: "string \<Rightarrow> nat" where
  "digits_value s = foldl (\<lambda>acc c. 10 * acc + digit_val c) 0 (filter is_digit s)"

definition parse_int :: "string \<Rightarrow> int option" where
  "parse_int s =
     (let t = strip s;
          neg = (t \<noteq> [] \<and> hd t = CHR ''-'');
          body = (if t \<noteq> [] \<and> (hd t = CHR ''-'' \<or> hd t = CHR ''+'') then tl t else t)
      in if digits_ok False body
         then Some (if neg then - int (digits_value body) else int (digits_value body))
         else None)"

subsection \<open>Exceptions, the console, the object\<close>

datatype error = EOFError | ValueError | TypeError | AttributeError

text \<open>\<^verbatim>\<open>int(v)\<close> where \<open>v\<close> is a string or \<^verbatim>\<open>None\<close>.\<close>

definition py_int :: "string option \<Rightarrow> error + int" where
  "py_int v =
     (case v of
        None \<Rightarrow> Inl TypeError
      | Some s \<Rightarrow> (case parse_int s of None \<Rightarrow> Inl ValueError | Some i \<Rightarrow> Inr i))"

text \<open>A method call \<^verbatim>\<open>v.f()\<close> where \<open>v\<close> is a string or \<^verbatim>\<open>None\<close>: \<^verbatim>\<open>None\<close> has none of
  the string methods.\<close>

definition py_method :: "(string \<Rightarrow> 'a) \<Rightarrow> string option \<Rightarrow> error + 'a" where
  "py_method f v = (case v of None \<Rightarrow> Inl AttributeError | Some s \<Rightarrow> Inr (f s))"

text \<open>The truth value of a string or \<^verbatim>\<open>None\<close>, and its text inside an f-string.\<close>

definition truthy :: "string option \<Rightarrow> bool" where
  "truthy v = (case v of None \<Rightarrow> False | Some s \<Rightarrow> s \<noteq> [])"

definition py_str :: "string option \<Rightarrow> string" where
  "py_str v = (case v of None \<Rightarrow> ''None'' | Some s \<Rightarrow> s)"

text \<open>Sequencing of two steps, the first of which may raise.\<close>

definition bind_err :: "error + 'a \<Rightarrow> ('a \<Rightarrow> error + 'b) \<Rightarrow> error + 'b" where
  "bind_err m f = (case m of Inl e \<Rightarrow> Inl e | Inr x \<Rightarrow> f x)"

record world =
  stdin :: "string list"
  stdout :: "string list"
  files :: "string \<rightharpoonup> string"

text \<open>\<^verbatim>\<open>print(s)\<close> writes the text and a line feed.\<close>

definition py_print :: "string \<Rightarrow> world \<Rightarrow> world" where
  "py_print s w = w\<lparr>stdout := stdout w @ [s @ [NL]]\<rparr>"

text \<open>\<^verbatim>\<open>input(prompt)\<close> writes the prompt and reads one line, without its line feed.\<close>

definition py_input :: "string \<Rightarrow> world \<Rightarrow> error + (string \<times> world)" where
  "py_input prompt w =
     (case stdin w of
        [] \<Rightarrow> Inl EOFError
      | l # ls \<Rightarrow> Inr (l, w\<lparr>stdin := ls, stdout := stdout w @ [prompt]\<rparr>))"

subsection \<open>The input collector\<close>

text \<open>The f-string of the prompt: the default is shown when it is truthy (neither
  \<^verbatim>\<open>None\<close> nor empty).\<close>

definition prompt_text :: "string \<Rightarrow> string option \<Rightarrow> string" where
  "prompt_text prompt dflt =
     (if truthy dflt then prompt @ '' ['' @ py_str dflt @ '']: '' else prompt @ '': '')"

function get_user_input :: "string \<Rightarrow> string option \<Rightarrow> bool \<Rightarrow> world \<Rightarrow> error + (string option \<times> world)" where
  "get_user_input prompt dflt required w =
     (case py_input (prompt_text prompt dflt) w of
        Inl e \<Rightarrow> Inl e
      | Inr (line, w1) \<Rightarrow>
          (let user_input = strip line in
           if user_input = [] \<and> dflt \<noteq> None then Inr (dflt, w1)
           else if user_input \<noteq> [] \<or> \<not> required
             then Inr (if user_input \<noteq> [] then Some user_input else None, w1)
           else get_user_input prompt dflt required (py_print ''This field is required!'' w1)))"
  by pat_completeness auto
termination
  by (relation "measure (\<lambda>(p, d, r, w). length (stdin w))")
     (auto simp: py_input_def py_print_def split: list.splits)

declare get_user_input.simps [simp del]

text \<open>Every answer that \<open>get_user_input\<close> returns has cost at least one line of input:
  the measure of the loops that call it.\<close>

lemma py_input_consumes:
  "py_input p w = Inr (l, w') \<Longrightarrow> length (stdin w') < length (stdin w)"
  by (auto simp: py_input_def split: list.splits)

lemma get_user_input_eof:
  "py_input (prompt_text p d) w = Inl e \<Longrightarrow> get_user_input p d r w = Inl e"
  by (subst get_user_input.simps) simp

lemma get_user_input_step:
  "py_input (prompt_text p d) w = Inr (line, w1) \<Longrightarrow>
   get_user_input p d r w =
     (if strip line = [] \<and> d \<noteq> None then Inr (d, w1)
      else if strip line \<noteq> [] \<or> \<not> r
        then Inr (if strip line \<noteq> [] then Some (strip line) else None, w1)
      else get_user_input p d r (py_print ''This field is required!'' w1))"
  by (subst get_user_input.simps) (simp add: Let_def)

lemma get_user_input_consumes:
  "get_user_input p d r w = Inr (v, w') \<Longrightarrow> length (stdin w') < length (stdin w)"
proof (induction p d r w rule: get_user_input.induct)
  case (1 prompt dflt required w)
  show ?case
  proof (cases "py_input (prompt_text prompt dflt) w")
    case (Inl e)
    with "1.prems" show ?thesis
      by (simp add: get_user_input_eof)
  next
    case (Inr lw)
    obtain line w1 where lw: "lw = (line, w1)"
      by (cases lw)
    have inp: "py_input (prompt_text prompt dflt) w = Inr (line, w1)"
      using Inr lw by simp
    have step: "length (stdin w1) < length (stdin w)"
      using inp by (rule py_input_consumes)
    show ?thesis
    proof (cases "strip line = [] \<and> dflt = None \<and> required")
      case True
      then have "get_user_input prompt dflt required (py_print ''This field is required!'' w1)
                   = Inr (v, w')"
        using "1.prems" get_user_input_step [OF inp, of required] by simp
      then have "length (stdin w') < length (stdin (py_print ''This field is required!'' w1))"
        using "1.IH" [OF Inr lw [symmetric] refl] True by simp
      then show ?thesis
        using step by (simp add: py_print_def)
    next
      case False
      then have "w' = w1"
        using "1.prems" get_user_input_step [OF inp, of required]
        by (auto split: if_splits)
      then show ?thesis
        using step by simp
    qed
  qed
qed

text \<open>\<^verbatim>\<open>get_validated_int\<close>: only \<^verbatim>\<open>ValueError\<close> is caught.\<close>

function get_validated_int :: "string \<Rightarrow> int \<Rightarrow> int \<Rightarrow> string \<Rightarrow> world \<Rightarrow> error + (int \<times> world)" where
  "get_validated_int prompt min_val max_val dflt w =
     (case get_user_input prompt (Some dflt) True w of
        Inl e \<Rightarrow> Inl e
      | Inr (val, w1) \<Rightarrow>
          (case py_int val of
             Inr value_int \<Rightarrow>
               if min_val \<le> value_int \<and> value_int \<le> max_val then Inr (value_int, w1)
               else get_validated_int prompt min_val max_val dflt
                      (py_print (''Value must be between '' @ str_int min_val @ '' and ''
                                  @ str_int max_val @ ''!'') w1)
           | Inl e \<Rightarrow>
               if e = ValueError
               then get_validated_int prompt min_val max_val dflt
                      (py_print ''Invalid input, please enter a number!'' w1)
               else Inl e))"
  by pat_completeness auto
termination
  by (relation "measure (\<lambda>(p, lo, hi, d, w). length (stdin w))")
     (auto simp: py_print_def dest: get_user_input_consumes)

declare get_validated_int.simps [simp del]

subsection \<open>The composite collectors\<close>

definition get_color_input :: "world \<Rightarrow> error + (string \<times> world)" where
  "get_color_input w =
     bind_err (get_validated_int ''Red (0-255)'' 0 255 ''50''
                 (py_print (NL # ''--- Color Settings ---'') w)) (\<lambda>(r, w1).
     bind_err (get_validated_int ''Green (0-255)'' 0 255 ''50'' w1) (\<lambda>(g, w2).
     bind_err (get_validated_int ''Blue (0-255)'' 0 255 ''255'' w2) (\<lambda>(b, w3).
     bind_err (get_validated_int ''Alpha (0-255)'' 0 255 ''255'' w3) (\<lambda>(a, w4).
     Inr (''Color('' @ str_int r @ '', '' @ str_int g @ '', '' @ str_int b @ '', ''
            @ str_int a @ '')'', w4)))))"

text \<open>The \<^verbatim>\<open>while True\<close> loop of \<^verbatim>\<open>get_models_input\<close>, from the list \<open>models\<close> collected so
  far.\<close>

function models_loop :: "string list \<Rightarrow> world \<Rightarrow> error + (string list \<times> world)" where
  "models_loop models w =
     (case get_user_input ''Model path (e.g., models/player/urban.mdl)'' None False w of
        Inl e \<Rightarrow> Inl e
      | Inr (model, w1) \<Rightarrow>
          if \<not> truthy model
          then Inr (if models = [] then models @ [DQ # ''models/player/urban.mdl'' @ [DQ]]
                    else models, w1)
          else
            (case get_user_input ''Add another model? (y/n)'' (Some ''n'') True w1 of
               Inl e \<Rightarrow> Inl e
             | Inr (answer, w2) \<Rightarrow>
                 (case py_method lower answer of
                    Inl e \<Rightarrow> Inl e
                  | Inr a \<Rightarrow>
                      if a \<noteq> ''y'' then Inr (models @ [DQ # py_str model @ [DQ]], w2)
                      else models_loop (models @ [DQ # py_str model @ [DQ]]) w2)))"
  by pat_completeness auto
termination
  by (relation "measure (\<lambda>(ms, w). length (stdin w))")
     (auto dest!: get_user_input_consumes)

declare models_loop.simps [simp del]

definition get_models_input :: "world \<Rightarrow> error + (string \<times> world)" where
  "get_models_input w =
     bind_err (models_loop [] (py_print (NL # ''--- Player Models ---'') w)) (\<lambda>(models, w1).
     Inr (if length models = 1 then models ! 0 else ''{'' @ join '', '' models @ ''}'', w1))"

text \<open>The loop of \<^verbatim>\<open>get_weapons_input\<close>.\<close>

function weapons_loop :: "string list \<Rightarrow> world \<Rightarrow> error + (string list \<times> world)" where
  "weapons_loop weapons w =
     (case get_user_input ''Weapon class (e.g., weapon_pistol)'' None False w of
        Inl e \<Rightarrow> Inl e
      | Inr (weapon, w1) \<Rightarrow>
          if \<not> truthy weapon
          then Inr (if weapons = [] then weapons @ [DQ # ''weapon_pistol'' @ [DQ]]
                    else weapons, w1)
          else
            (case get_user_input ''Add another weapon? (y/n)'' (Some ''n'') True w1 of
               Inl e \<Rightarrow> Inl e
             | Inr (answer, w2) \<Rightarrow>
                 (case py_method lower answer of
                    Inl e \<Rightarrow> Inl e
                  | Inr a \<Rightarrow>
                      if a \<noteq> ''y'' then Inr (weapons @ [DQ # py_str weapon @ [DQ]], w2)
                      else weapons_loop (weapons @ [DQ # py_str weapon @ [DQ]]) w2)))"
  by pat_completeness auto
termination
  by (relation "measure (\<lambda>(ws, w). length (stdin w))")
     (auto dest!: get_user_input_consumes)

declare weapons_loop.simps [simp del]

definition get_weapons_input :: "world \<Rightarrow> error + (string \<times> world)" where
  "get_weapons_input w =
     bind_err (weapons_loop [] (py_print (NL # ''--- Weapons ---'') w)) (\<lambda>(weapons, w1).
     Inr (''{'' @ join '', '' weapons @ ''}'', w1))"

text \<open>The dictionary \<^verbatim>\<open>settings\<close> has seven fixed keys.\<close>

record spawn_settings =
  health :: int
  max_health :: int
  armor :: int
  max_armor :: int
  walk_speed :: int
  run_speed :: int
  jump_power :: int

definition get_spawn_settings :: "world \<Rightarrow> error + (spawn_settings \<times> world)" where
  "get_spawn_settings w =
     bind_err (get_user_input ''Health'' (Some ''100'') True
                 (py_print (NL # ''--- Spawn Settings ---'') w)) (\<lambda>(v1, w1).
     bind_err (py_int v1) (\<lambda>health_v.
     bind_err (get_user_input ''Max Health'' (Some (str_int health_v)) True w1) (\<lambda>(v2, w2).
     bind_err (py_int v2) (\<lambda>max_health_v.
     bind_err (get_user_input ''Armor'' (Some ''0'') True w2) (\<lambda>(v3, w3).
     bind_err (py_int v3) (\<lambda>armor_v.
     bind_err (get_user_input ''Max Armor (leave empty to match Armor)''
                 (Some (str_int armor_v)) True w3) (\<lambda>(max_armor_input, w4).
     bind_err (if truthy max_armor_input then py_int max_armor_input else Inr armor_v)
       (\<lambda>max_armor_v.
     bind_err (get_user_input ''Walk Speed'' (Some ''200'') True w4) (\<lambda>(v5, w5).
     bind_err (py_int v5) (\<lambda>walk_speed_v.
     bind_err (get_user_input ''Run Speed'' (Some ''400'') True w5) (\<lambda>(v6, w6).
     bind_err (py_int v6) (\<lambda>run_speed_v.
     bind_err (get_user_input ''Jump Power'' (Some ''200'') True w6) (\<lambda>(v7, w7).
     bind_err (py_int v7) (\<lambda>jump_power_v.
     Inr (\<lparr>health = health_v, max_health = max_health_v, armor = armor_v,
           max_armor = max_armor_v, walk_speed = walk_speed_v, run_speed = run_speed_v,
           jump_power = jump_power_v\<rparr>, w7)))))))))))))))"

subsection \<open>The template renderer and the session\<close>

text \<open>The f-string \<^verbatim>\<open>job_template\<close> of \<^verbatim>\<open>create_job\<close>, line by line. The two opening
  brackets of the Lua long string are written apart.\<close>

definition job_template ::
  "string \<Rightarrow> string \<Rightarrow> string \<Rightarrow> string \<Rightarrow> string \<Rightarrow> string \<Rightarrow> string \<Rightarrow> int \<Rightarrow> int
     \<Rightarrow> bool \<Rightarrow> bool \<Rightarrow> bool \<Rightarrow> spawn_settings \<Rightarrow> string" where
  "job_template team_name job_name color models description weapons command max_players salary
     vote_required has_license can_demote spawn =
     team_name @ '' = DarkRP.createJob('' @ [DQ] @ job_name @ [DQ] @ '', {'' @ [NL]
     @ ''    color = '' @ color @ '','' @ [NL]
     @ ''    model = '' @ models @ '','' @ [NL]
     @ ''    description = ['' @ ''['' @ description @ '']],'' @ [NL]
     @ ''    weapons = '' @ weapons @ '','' @ [NL]
     @ ''    command = '' @ [DQ] @ command @ [DQ] @ '','' @ [NL]
     @ ''    max = '' @ str_int max_players @ '','' @ [NL]
     @ ''    salary = '' @ str_int salary @ '','' @ [NL]
     @ ''    admin = 0,'' @ [NL]
     @ ''    vote = '' @ lower (str_bool vote_required) @ '','' @ [NL]
     @ ''    hasLicense = '' @ lower (str_bool has_license) @ '','' @ [NL]
     @ ''    candemote = '' @ lower (str_bool can_demote) @ '','' @ [NL]
     @ [NL]
     @ ''    PlayerSpawn = function(ply)'' @ [NL]
     @ ''        ply:SetHealth('' @ str_int (health spawn) @ '')'' @ [NL]
     @ ''        ply:SetMaxHealth('' @ str_int (max_health spawn) @ '')'' @ [NL]
     @ ''        ply:SetArmor('' @ str_int (armor spawn) @ '')'' @ [NL]
     @ ''        ply:SetMaxArmor('' @ str_int (max_armor spawn) @ '')'' @ [NL]
     @ ''        ply:SetWalkSpeed('' @ str_int (walk_speed spawn) @ '')'' @ [NL]
     @ ''        ply:SetRunSpeed('' @ str_int (run_speed spawn) @ '')'' @ [NL]
     @ ''        ply:SetJumpPower('' @ str_int (jump_power spawn) @ '')'' @ [NL]
     @ ''    end'' @ [NL]
     @ ''})''"

text \<open>An entry of \<^verbatim>\<open>self.jobs\<close>, and the object.\<close>

record job =
  team_name :: string
  job_name :: string
  code :: string

record generator =
  jobs :: "job list"

definition create_job :: "generator \<Rightarrow> world \<Rightarrow> error + (string \<times> generator \<times> world)" where
  "create_job self w =
     bind_err (get_user_input ''Team Name (e.g., TEAM_SUPER)'' (Some ''TEAM_CUSTOM'') True
                 (py_print (replicate 50 (CHR ''=''))
                   (py_print ''NEW DARKRP JOB''
                     (py_print (NL # replicate 50 (CHR ''='')) w)))) (\<lambda>(v1, w1).
     bind_err (py_method upper v1) (\<lambda>team_name_v.
     bind_err (get_user_input ''Job Name (e.g., Super Soldier)'' (Some ''Custom Job'') True w1)
       (\<lambda>(job_name_v, w2).
     bind_err (get_color_input w2) (\<lambda>(color, w3).
     bind_err (get_user_input ''Description'' (Some ''A custom DarkRP job'') True w3) (\<lambda>(v2, w4).
     bind_err (py_method escape_newlines v2) (\<lambda>description.
     bind_err (get_models_input w4) (\<lambda>(models, w5).
     bind_err (get_weapons_input w5) (\<lambda>(weapons, w6).
     bind_err (py_method lower job_name_v) (\<lambda>lowered.
     bind_err (get_user_input ''Chat command'' (Some (remove_spaces lowered)) True w6)
       (\<lambda>(command, w7).
     bind_err (get_user_input ''Max Players'' (Some ''2'') True w7) (\<lambda>(v3, w8).
     bind_err (py_int v3) (\<lambda>max_players.
     bind_err (get_user_input ''Salary'' (Some ''50'') True w8) (\<lambda>(v4, w9).
     bind_err (py_int v4) (\<lambda>salary.
     bind_err (get_user_input ''Has license? (y/n)'' (Some ''y'') True w9) (\<lambda>(v5, w10).
     bind_err (py_method lower v5) (\<lambda>a5.
     bind_err (get_user_input ''Vote required? (y/n)'' (Some ''n'') True w10) (\<lambda>(v6, w11).
     bind_err (py_method lower v6) (\<lambda>a6.
     bind_err (get_user_input ''Can be demoted? (y/n)'' (Some ''n'') True w11) (\<lambda>(v7, w12).
     bind_err (py_method lower v7) (\<lambda>a7.
     bind_err (get_spawn_settings w12) (\<lambda>(spawn, w13).
     (let has_license = (a5 = ''y'');
          vote_required = (a6 = ''y'');
          can_demote = (a7 = ''y'');
          template = job_template team_name_v (py_str job_name_v) color models description
                       weapons (py_str command) max_players salary vote_required has_license
                       can_demote spawn
      in Inr (template,
              self\<lparr>jobs := jobs self @ [\<lparr>team_name = team_name_v,
                                          job_name = py_str job_name_v,
                                          code = template\<rparr>]\<rparr>,
              w13)))))))))))))))))))))))"

subsection \<open>The file writer\<close>

text \<open>A reading of \<^verbatim>\<open>datetime.now()\<close>. \<^verbatim>\<open>save_jobs\<close> reads the clock twice, once for the file
  name and once for the header; the two readings are its first two arguments.\<close>

record datetime =
  year :: nat
  month :: nat
  day :: nat
  hour :: nat
  minute :: nat
  second :: nat

definition valid_datetime :: "datetime \<Rightarrow> bool" where
  "valid_datetime d =
     (1000 \<le> year d \<and> year d \<le> 9999 \<and> 1 \<le> month d \<and> month d \<le> 12
      \<and> 1 \<le> day d \<and> day d \<le> 31 \<and> hour d < 24 \<and> minute d < 60 \<and> second d < 60)"

text \<open>A field of \<^verbatim>\<open>strftime\<close>: the number in decimal, filled with zeros to its width.\<close>

definition zpad :: "nat \<Rightarrow> nat \<Rightarrow> string" where
  "zpad width n = replicate (width - length (str_nat n)) (CHR ''0'') @ str_nat n"

text \<open>\<^verbatim>\<open>strftime('%Y%m%d_%H%M%S')\<close> and \<^verbatim>\<open>strftime('%d.%m.%Y %H:%M:%S')\<close>\<close>

definition strftime_compact :: "datetime \<Rightarrow> string" where
  "strftime_compact d =
     zpad 4 (year d) @ zpad 2 (month d) @ zpad 2 (day d) @ ''_''
     @ zpad 2 (hour d) @ zpad 2 (minute d) @ zpad 2 (second d)"

definition strftime_human :: "datetime \<Rightarrow> string" where
  "strftime_human d =
     zpad 2 (day d) @ ''.'' @ zpad 2 (month d) @ ''.'' @ zpad 4 (year d) @ '' ''
     @ zpad 2 (hour d) @ '':'' @ zpad 2 (minute d) @ '':'' @ zpad 2 (second d)"

text \<open>\<^verbatim>\<open>save_jobs\<close>. Opening the file for writing creates it empty (or empties it); each
  \<^verbatim>\<open>f.write\<close> appends to it; leaving the \<^verbatim>\<open>with\<close> block closes it. Opening and writing are
  taken to succeed. The check mark of the last message is its three UTF-8 bytes.\<close>

definition save_jobs :: "datetime \<Rightarrow> datetime \<Rightarrow> generator \<Rightarrow> world \<Rightarrow> generator \<times> world" where
  "save_jobs now1 now2 self w =
     (if jobs self = [] then (self, py_print ''No jobs to save!'' w)
      else
        (let filename = ''darkrp_jobs_'' @ strftime_compact now1 @ ''.lua'';
             f0 = [];
             f1 = f0 @ ''-- DarkRP Jobs generated with Python Script'' @ [NL];
             f2 = f1 @ ''-- Created on: '' @ strftime_human now2 @ [NL, NL];
             f3 = foldl (\<lambda>f job. (f @ code job) @ [NL, NL]) f2 (jobs self)
         in (self,
             py_print (NL # [CHR 0xE2, CHR 0x9C, CHR 0x85] @ '' Jobs saved to: '' @ filename)
               (w\<lparr>files := (files w)(filename \<mapsto> f3)\<rparr>))))"

text \<open>The shape of one field of a time stamp: a text of the given width, made of decimal
  digits, that denotes the given number.\<close>

definition decimal_field :: "nat \<Rightarrow> nat \<Rightarrow> string \<Rightarrow> bool" where
  "decimal_field width n s = (length s = width \<and> list_all is_digit s \<and> digits_value s = n)"

text \<open>
  The lines of a complete dialogue with one of the two collection loops, and the entries the
  user makes in it: a blank line and no entry; or an entry and an answer other than
  \<^verbatim>\<open>y\<close> to the question whether to add another; or an entry, the answer
  \<^verbatim>\<open>y\<close> (in either case), and a further dialogue. An entry counts without its surrounding
  whitespace. This describes the input, not the program.
\<close>

inductive entry_lines :: "string list \<Rightarrow> string list \<Rightarrow> bool" where
  blank: "strip b = [] \<Longrightarrow> entry_lines [] [b]"
| last: "strip e \<noteq> [] \<Longrightarrow> lower (strip a) \<noteq> ''y'' \<Longrightarrow> entry_lines [strip e] [e, a]"
| more: "strip e \<noteq> [] \<Longrightarrow> lower (strip a) = ''y'' \<Longrightarrow> entry_lines es ls
           \<Longrightarrow> entry_lines (strip e # es) (e # a # ls)"

section \<open>Properties\<close>

subsection \<open>One answer costs one line\<close>

text \<open>Every call of \<^verbatim>\<open>get_user_input\<close> in the program either gives a default or allows an
  empty answer, so each call reads exactly one line: the answer, or the default when the
  answer is blank.\<close>

lemma get_user_input_Some:
  "get_user_input p (Some d) r w =
     (case stdin w of
        [] \<Rightarrow> Inl EOFError
      | l # ls \<Rightarrow> Inr (Some (if strip l = [] then d else strip l),
                      w\<lparr>stdin := ls, stdout := stdout w @ [prompt_text p (Some d)]\<rparr>))"
  by (subst get_user_input.simps) (simp add: py_input_def Let_def split: list.splits)

lemma get_user_input_optional:
  "get_user_input p None False w =
     (case stdin w of
        [] \<Rightarrow> Inl EOFError
      | l # ls \<Rightarrow> Inr (if strip l = [] then None else Some (strip l),
                      w\<lparr>stdin := ls, stdout := stdout w @ [prompt_text p None]\<rparr>))"
  by (subst get_user_input.simps) (simp add: py_input_def Let_def split: list.splits)

lemma bind_err_simps [simp]:
  "bind_err (Inl e) f = Inl e"
  "bind_err (Inr x) f = f x"
  by (simp_all add: bind_err_def)

lemma bind_err_InrE:
  assumes "bind_err m f = Inr y"
  obtains x where "m = Inr x" and "f x = Inr y"
  using assms by (cases m) (simp_all add: bind_err_def)

subsection \<open>Integers and their decimal text\<close>

text \<open>\<^verbatim>\<open>int(str(i))\<close> is \<open>i\<close>, and \<^verbatim>\<open>strip\<close> is idempotent, so that parsing a stripped answer
  is parsing the answer.\<close>

lemma digit_char_is_digit: "d < 10 \<Longrightarrow> is_digit (digit_char d)"
proof -
  assume "d < 10"
  then have "d \<in> {0, 1, 2, 3, 4, 5, 6, 7, 8, 9}"
    by auto
  then show ?thesis
    by (auto simp: is_digit_def digit_char_def digits_def)
qed

lemma digit_val_digit_char: "d < 10 \<Longrightarrow> digit_val (digit_char d) = d"
proof -
  assume "d < 10"
  then have "d \<in> {0, 1, 2, 3, 4, 5, 6, 7, 8, 9}"
    by auto
  then show ?thesis
    by (auto simp: digit_val_def digit_char_def digits_def)
qed

lemma str_nat_digits: "list_all is_digit (str_nat n)"
proof (induction n rule: str_nat.induct)
  case (1 n)
  show ?case
  proof (cases "n < 10")
    case True
    then show ?thesis
      by (subst str_nat.simps) (simp add: digit_char_is_digit)
  next
    case False
    then show ?thesis
      using 1 by (subst str_nat.simps) (simp add: digit_char_is_digit)
  qed
qed

lemma str_nat_nonempty: "str_nat n \<noteq> []"
  by (subst str_nat.simps) simp

lemma digits_value_snoc:
  "is_digit c \<Longrightarrow> digits_value (s @ [c]) = 10 * digits_value s + digit_val c"
  by (simp add: digits_value_def)

lemma digits_value_str_nat: "digits_value (str_nat n) = n"
proof (induction n rule: str_nat.induct)
  case (1 n)
  show ?case
  proof (cases "n < 10")
    case True
    then show ?thesis
      by (subst str_nat.simps) (simp add: digits_value_def digit_char_is_digit digit_val_digit_char)
  next
    case False
    then have "digits_value (str_nat n)
                 = 10 * digits_value (str_nat (n div 10)) + digit_val (digit_char (n mod 10))"
      by (subst str_nat.simps) (simp add: digits_value_snoc digit_char_is_digit)
    then show ?thesis
      using 1 False by (simp add: digit_val_digit_char)
  qed
qed

lemma digits_ok_all_digits:
  "list_all is_digit s \<Longrightarrow> s \<noteq> [] \<or> prev \<Longrightarrow> digits_ok prev s"
  by (induction s arbitrary: prev) auto

lemma is_digit_not_space: "is_digit c \<Longrightarrow> \<not> is_space c"
  by (auto simp: is_digit_def is_space_def digits_def)

lemma is_digit_not_sign: "is_digit c \<Longrightarrow> c \<noteq> CHR ''-'' \<and> c \<noteq> CHR ''+''"
  by (auto simp: is_digit_def digits_def)

lemma strip_no_space:
  "s \<noteq> [] \<Longrightarrow> \<not> is_space (hd s) \<Longrightarrow> \<not> is_space (last s) \<Longrightarrow> strip s = s"
proof -
  assume s: "s \<noteq> []" and h: "\<not> is_space (hd s)" and l: "\<not> is_space (last s)"
  have "dropWhile is_space s = s"
    using s h by (cases s) simp_all
  moreover have "dropWhile is_space (rev s) = rev s"
    using s l by (cases "rev s") (simp_all add: last_rev [symmetric] hd_rev)
  ultimately show ?thesis
    by (simp add: strip_def)
qed

lemma strip_str_nat: "strip (str_nat n) = str_nat n"
proof -
  have "is_digit (hd (str_nat n))" "is_digit (last (str_nat n))"
    using str_nat_digits [of n] str_nat_nonempty [of n]
    by (auto simp: list_all_iff)
  then show ?thesis
    by (simp add: strip_no_space str_nat_nonempty is_digit_not_space)
qed

lemma parse_int_str_nat: "parse_int (str_nat n) = Some (int n)"
proof -
  have "is_digit (hd (str_nat n))"
    using str_nat_digits [of n] str_nat_nonempty [of n]
    by (auto simp: list_all_iff)
  then have "hd (str_nat n) \<noteq> CHR ''-''" "hd (str_nat n) \<noteq> CHR ''+''"
    using is_digit_not_sign by blast+
  then show ?thesis
    by (simp add: parse_int_def strip_str_nat str_nat_nonempty digits_ok_all_digits
        str_nat_digits digits_value_str_nat)
qed

lemma strip_minus_str_nat: "strip (CHR ''-'' # str_nat n) = CHR ''-'' # str_nat n"
proof -
  have "is_digit (last (str_nat n))"
    using str_nat_digits [of n] str_nat_nonempty [of n]
    by (auto simp: list_all_iff)
  moreover have "\<not> is_space (CHR ''-'')"
    by (simp add: is_space_def)
  ultimately show ?thesis
    by (simp add: strip_no_space str_nat_nonempty is_digit_not_space)
qed

lemma parse_int_str_int: "parse_int (str_int i) = Some i"
proof (cases "i < 0")
  case True
  then show ?thesis
    by (simp add: str_int_def parse_int_def strip_minus_str_nat digits_ok_all_digits
        str_nat_digits str_nat_nonempty digits_value_str_nat)
next
  case False
  then show ?thesis
    by (simp add: str_int_def parse_int_str_nat)
qed

lemma str_int_nonempty: "str_int i \<noteq> []"
  by (simp add: str_int_def str_nat_nonempty)

lemma strip_ends:
  assumes "strip s \<noteq> []"
  shows "\<not> is_space (hd (strip s))" and "\<not> is_space (last (strip s))"
proof -
  define t where "t = dropWhile is_space s"
  define u where "u = rev (dropWhile is_space (rev t))"
  have u: "strip s = u"
    by (simp add: strip_def t_def u_def)
  have "t = rev (takeWhile is_space (rev t) @ dropWhile is_space (rev t))"
    by (simp only: takeWhile_dropWhile_id rev_rev_ident)
  also have "\<dots> = u @ rev (takeWhile is_space (rev t))"
    by (simp only: rev_append u_def)
  finally have t: "t = u @ rev (takeWhile is_space (rev t))" .
  have "u \<noteq> []"
    using assms u by simp
  then have "hd u = hd t"
    using t by (metis hd_append2)
  moreover have "t \<noteq> []"
    using \<open>u \<noteq> []\<close> t by auto
  then have "\<not> is_space (hd t)"
    unfolding t_def by (rule hd_dropWhile)
  ultimately show "\<not> is_space (hd (strip s))"
    using u by simp
  have "dropWhile is_space (rev t) \<noteq> []"
    using \<open>u \<noteq> []\<close> by (simp add: u_def)
  then have "\<not> is_space (hd (dropWhile is_space (rev t)))"
    by (rule hd_dropWhile)
  moreover have "last u = hd (dropWhile is_space (rev t))"
    using \<open>dropWhile is_space (rev t) \<noteq> []\<close> by (simp add: u_def last_rev)
  ultimately show "\<not> is_space (last (strip s))"
    using u by simp
qed

lemma strip_idem: "strip (strip s) = strip s"
proof (cases "strip s = []")
  case True
  have "strip [] = []"
    by (simp add: strip_def)
  then show ?thesis
    using True by simp
next
  case False
  then show ?thesis
    by (simp add: strip_no_space strip_ends)
qed

lemma parse_int_strip: "parse_int (strip s) = parse_int s"
  by (simp add: parse_int_def strip_idem)

subsection \<open>Saving\<close>

text \<open>
  C8. Saving an empty session is a no-op with a notice: \<open>save_jobs\<close> returns (the model has
  no error result for it), the object is unchanged, the only effect on the world is the line
  \<^verbatim>\<open>No jobs to save!\<close> on standard output, and in particular no file is created or changed.
\<close>

theorem save_jobs_empty_session:
  assumes "jobs self = []"
  shows "save_jobs now1 now2 self w
           = (self, w\<lparr>stdout := stdout w @ [''No jobs to save!'' @ [NL]]\<rparr>)
         \<and> files (snd (save_jobs now1 now2 self w)) = files w"
  using assms by (simp add: save_jobs_def py_print_def)

theorem save_jobs_empty_session_witness:
  "save_jobs \<lparr>year = 2026, month = 11, day = 4, hour = 9, minute = 40, second = 0\<rparr>
             \<lparr>year = 2026, month = 11, day = 4, hour = 9, minute = 40, second = 1\<rparr>
             \<lparr>jobs = []\<rparr> \<lparr>stdin = [''4''], stdout = [], files = Map.empty\<rparr>
     = (\<lparr>jobs = []\<rparr>,
        \<lparr>stdin = [''4''], stdout = [''No jobs to save!'' @ [NL]], files = Map.empty\<rparr>)"
  using save_jobs_empty_session
          [of "\<lparr>jobs = []\<rparr>"
              "\<lparr>year = 2026, month = 11, day = 4, hour = 9, minute = 40, second = 0\<rparr>"
              "\<lparr>year = 2026, month = 11, day = 4, hour = 9, minute = 40, second = 1\<rparr>"
              "\<lparr>stdin = [''4''], stdout = [], files = Map.empty\<rparr>"]
  by simp

subsection \<open>Evaluation on concrete inputs\<close>

text \<open>The equations that compute the model on a given list of input lines.\<close>

lemma py_int_Some: "py_int (Some s) = Inr i \<longleftrightarrow> parse_int s = Some i"
  by (simp add: py_int_def split: option.splits)

lemma truthy_Some: "truthy (Some s) \<longleftrightarrow> s \<noteq> []"
  by (simp add: truthy_def)

lemmas eval_simps =
  get_user_input_Some get_user_input_optional py_print_def py_int_def py_method_def
  py_str_def truthy_def prompt_text_def parse_int_def strip_def is_space_def
  is_digit_def digits_def digit_val_def digit_char_def digits_value_def
  str_int_def str_nat.simps lower_def upper_def lower_char_def upper_char_def
  lower_letters_def upper_letters_def NL_def DQ_def BSL_def Let_def

subsection \<open>Spawn settings\<close>

lemma parse_answer:
  "parse_int (if strip l = [] then d else strip l) = parse_int (if strip l = [] then d else l)"
  by (simp add: parse_int_strip)

text \<open>
  C5. The fourth line that \<open>get_spawn_settings\<close> reads is the answer to the max-armor prompt.
  \<^item> Whenever the run returns: with a blank answer the recorded \<open>max_armor\<close> equals the
    recorded \<open>armor\<close>; with any other answer it is the integer parsed from the answer itself,
    whatever the armor is (so an explicit \<^verbatim>\<open>0\<close> is recorded as 0). The recorded armor is the
    integer parsed from the third line, or 0 when that line is blank.
  \<^item> And the run does return: when the other six answers are blank or integers, and the
    max-armor answer is blank or an integer, \<open>get_spawn_settings\<close> returns the settings with
    \<open>max_armor\<close> equal to the armor for the blank answer and to the answer's integer otherwise,
    having read exactly the seven lines.
\<close>

theorem spawn_max_armor:
  assumes "stdin w = h # mh # a # ma # rest"
  shows "(get_spawn_settings w = Inr (s, w') \<longrightarrow>
            (strip ma = [] \<longrightarrow> max_armor s = armor s)
            \<and> (strip ma \<noteq> [] \<longrightarrow> parse_int ma = Some (max_armor s))
            \<and> parse_int (if strip a = [] then ''0'' else a) = Some (armor s))
       \<and> (rest = wk # rn # jp # rest' \<longrightarrow>
          parse_int (if strip h = [] then ''100'' else h) = Some hv \<longrightarrow>
          parse_int (if strip mh = [] then str_int hv else mh) = Some mhv \<longrightarrow>
          parse_int (if strip a = [] then ''0'' else a) = Some av \<longrightarrow>
          (strip ma \<noteq> [] \<longrightarrow> parse_int ma = Some mav) \<longrightarrow>
          parse_int (if strip wk = [] then ''200'' else wk) = Some wv \<longrightarrow>
          parse_int (if strip rn = [] then ''400'' else rn) = Some rv \<longrightarrow>
          parse_int (if strip jp = [] then ''200'' else jp) = Some jv \<longrightarrow>
          (\<exists>w''. get_spawn_settings w
                   = Inr (\<lparr>health = hv, max_health = mhv, armor = av,
                           max_armor = (if strip ma = [] then av else mav),
                           walk_speed = wv, run_speed = rv, jump_power = jv\<rparr>, w'')
                 \<and> stdin w'' = rest'))"
proof (intro conjI impI)
  assume run: "get_spawn_settings w = Inr (s, w')"
  have "parse_int (if strip a = [] then ''0'' else strip a) = Some (armor s)
        \<and> parse_int (if strip ma = [] then str_int (armor s) else strip ma) = Some (max_armor s)"
    using run unfolding get_spawn_settings_def
    by (simp add: get_user_input_Some py_print_def assms truthy_Some str_int_nonempty)
       (auto simp: get_user_input_Some py_int_Some truthy_Some str_int_nonempty
             elim!: bind_err_InrE split: list.splits)
  then have both: "(strip ma = [] \<longrightarrow> max_armor s = armor s)
      \<and> (strip ma \<noteq> [] \<longrightarrow> parse_int ma = Some (max_armor s))
      \<and> parse_int (if strip a = [] then ''0'' else a) = Some (armor s)"
    by (cases "strip ma = []"; cases "strip a = []")
       (simp_all add: parse_int_strip parse_int_str_int)
  from both show "strip ma = [] \<Longrightarrow> max_armor s = armor s"
    by simp
  from both show "strip ma \<noteq> [] \<Longrightarrow> parse_int ma = Some (max_armor s)"
    by simp
  from both show "parse_int (if strip a = [] then ''0'' else a) = Some (armor s)"
    by simp
next
  assume rest: "rest = wk # rn # jp # rest'"
    and hv: "parse_int (if strip h = [] then ''100'' else h) = Some hv"
    and mhv: "parse_int (if strip mh = [] then str_int hv else mh) = Some mhv"
    and av: "parse_int (if strip a = [] then ''0'' else a) = Some av"
    and mav: "strip ma \<noteq> [] \<longrightarrow> parse_int ma = Some mav"
    and wv: "parse_int (if strip wk = [] then ''200'' else wk) = Some wv"
    and rv: "parse_int (if strip rn = [] then ''400'' else rn) = Some rv"
    and jv: "parse_int (if strip jp = [] then ''200'' else jp) = Some jv"
  show "\<exists>w''. get_spawn_settings w
                   = Inr (\<lparr>health = hv, max_health = mhv, armor = av,
                           max_armor = (if strip ma = [] then av else mav),
                           walk_speed = wv, run_speed = rv, jump_power = jv\<rparr>, w'')
                 \<and> stdin w'' = rest'"
    unfolding get_spawn_settings_def
    by (simp add: get_user_input_Some py_print_def assms rest py_int_def truthy_Some
        str_int_nonempty parse_answer hv mhv av wv rv jv mav parse_int_str_int
        parse_int_strip)
qed


theorem spawn_max_armor_witness:
  "(\<exists>w'. get_spawn_settings
            \<lparr>stdin = [''100'', [], ''50'', [], [], [], [], ''4''], stdout = [],
             files = Map.empty\<rparr>
          = Inr (\<lparr>health = 100, max_health = 100, armor = 50, max_armor = 50,
                  walk_speed = 200, run_speed = 400, jump_power = 200\<rparr>, w')
        \<and> stdin w' = [''4''])
   \<and> (\<exists>w'. get_spawn_settings
            \<lparr>stdin = [''100'', [], ''50'', ''0'', [], [], [], ''4''], stdout = [],
             files = Map.empty\<rparr>
          = Inr (\<lparr>health = 100, max_health = 100, armor = 50, max_armor = 0,
                  walk_speed = 200, run_speed = 400, jump_power = 200\<rparr>, w')
        \<and> stdin w' = [''4''])"
proof -
  let ?blank = "\<lparr>stdin = [''100'', [], ''50'', [], [], [], [], ''4''], stdout = [],
                 files = Map.empty\<rparr>"
  let ?zero = "\<lparr>stdin = [''100'', [], ''50'', ''0'', [], [], [], ''4''], stdout = [],
                files = Map.empty\<rparr>"
  have blank: "stdin ?blank = ''100'' # [] # ''50'' # [] # [[], [], [], ''4'']"
    and zero: "stdin ?zero = ''100'' # [] # ''50'' # ''0'' # [[], [], [], ''4'']"
    by simp_all
  from spawn_max_armor [OF blank, where wk = "[]" and rn = "[]" and jp = "[]"
         and rest' = "[''4'']" and hv = 100 and mhv = 100 and av = 50 and mav = 0
         and wv = 200 and rv = 400 and jv = 200]
       spawn_max_armor [OF zero, where wk = "[]" and rn = "[]" and jp = "[]"
         and rest' = "[''4'']" and hv = 100 and mhv = 100 and av = 50 and mav = 0
         and wv = 200 and rv = 400 and jv = 200]
  show ?thesis
    by (simp add: eval_simps)
qed

subsection \<open>The loops, one round at a time\<close>

text \<open>Each loop in terms of the lines it reads: what one round does with the next line (or
  the next two lines), and whether it returns or goes round again.\<close>

lemma get_validated_int_unfold:
  "get_validated_int p lo hi d w =
     (case stdin w of
        [] \<Rightarrow> Inl EOFError
      | l # ls \<Rightarrow>
          (case parse_int (if strip l = [] then d else strip l) of
             None \<Rightarrow>
               get_validated_int p lo hi d
                 (py_print ''Invalid input, please enter a number!''
                    (w\<lparr>stdin := ls, stdout := stdout w @ [prompt_text p (Some d)]\<rparr>))
           | Some i \<Rightarrow>
               if lo \<le> i \<and> i \<le> hi
               then Inr (i, w\<lparr>stdin := ls, stdout := stdout w @ [prompt_text p (Some d)]\<rparr>)
               else get_validated_int p lo hi d
                      (py_print (''Value must be between '' @ str_int lo @ '' and ''
                                  @ str_int hi @ ''!'')
                         (w\<lparr>stdin := ls, stdout := stdout w @ [prompt_text p (Some d)]\<rparr>))))"
  by (subst get_validated_int.simps)
     (simp add: get_user_input_Some py_int_def split: list.splits option.splits)

lemma models_loop_unfold:
  "models_loop ms w =
     (case stdin w of
        [] \<Rightarrow> Inl EOFError
      | l # rest \<Rightarrow>
          if strip l = []
          then Inr (if ms = [] then [DQ # ''models/player/urban.mdl'' @ [DQ]] else ms,
                    w\<lparr>stdin := rest,
                      stdout := stdout w
                        @ [''Model path (e.g., models/player/urban.mdl): '']\<rparr>)
          else
            (case rest of
               [] \<Rightarrow> Inl EOFError
             | a # ls \<Rightarrow>
                 if lower (if strip a = [] then ''n'' else strip a) \<noteq> ''y''
                 then Inr (ms @ [DQ # strip l @ [DQ]],
                           w\<lparr>stdin := ls,
                             stdout := stdout w
                               @ [''Model path (e.g., models/player/urban.mdl): '',
                                  ''Add another model? (y/n) [n]: '']\<rparr>)
                 else models_loop (ms @ [DQ # strip l @ [DQ]])
                        (w\<lparr>stdin := ls,
                           stdout := stdout w
                             @ [''Model path (e.g., models/player/urban.mdl): '',
                                ''Add another model? (y/n) [n]: '']\<rparr>)))"
  by (subst models_loop.simps)
     (simp add: get_user_input_Some get_user_input_optional py_method_def py_str_def
        truthy_def prompt_text_def split: list.splits)

lemma weapons_loop_unfold:
  "weapons_loop ws w =
     (case stdin w of
        [] \<Rightarrow> Inl EOFError
      | l # rest \<Rightarrow>
          if strip l = []
          then Inr (if ws = [] then [DQ # ''weapon_pistol'' @ [DQ]] else ws,
                    w\<lparr>stdin := rest,
                      stdout := stdout w @ [''Weapon class (e.g., weapon_pistol): '']\<rparr>)
          else
            (case rest of
               [] \<Rightarrow> Inl EOFError
             | a # ls \<Rightarrow>
                 if lower (if strip a = [] then ''n'' else strip a) \<noteq> ''y''
                 then Inr (ws @ [DQ # strip l @ [DQ]],
                           w\<lparr>stdin := ls,
                             stdout := stdout w
                               @ [''Weapon class (e.g., weapon_pistol): '',
                                  ''Add another weapon? (y/n) [n]: '']\<rparr>)
                 else weapons_loop (ws @ [DQ # strip l @ [DQ]])
                        (w\<lparr>stdin := ls,
                           stdout := stdout w
                             @ [''Weapon class (e.g., weapon_pistol): '',
                                ''Add another weapon? (y/n) [n]: '']\<rparr>)))"
  by (subst weapons_loop.simps)
     (simp add: get_user_input_Some get_user_input_optional py_method_def py_str_def
        truthy_def prompt_text_def split: list.splits)

lemmas run_simps =
  create_job_def get_color_input_def get_models_input_def get_weapons_input_def
  get_spawn_settings_def get_validated_int_unfold models_loop_unfold weapons_loop_unfold
  job_template_def str_bool_def remove_spaces_def escape_newlines_def eval_simps

subsection \<open>Creating a job\<close>

text \<open>
  C1. The integer prompts of \<open>create_job\<close> other than the colour channels (max players,
  salary, the spawn settings) do not go through \<open>get_validated_int\<close>: they apply \<^verbatim>\<open>int\<close> to
  the answer directly. With the answer \<^verbatim>\<open>abc\<close> to the max-players prompt, after valid
  answers to all the prompts before it, \<open>create_job\<close> raises \<^verbatim>\<open>ValueError\<close> instead of
  asking again, whatever input follows.
\<close>

theorem create_job_bad_number:
  "create_job self
     \<lparr>stdin = [''TEAM_TEST'', ''Tester'', [], [], [], [], [], ''models/player/urban.mdl'', ''n'',
               ''weapon_pistol'', ''n'', [], ''abc''] @ rest,
      stdout = out, files = fs\<rparr>
   = Inl ValueError"
  by (simp add: run_simps)

text \<open>
  C6. The end-to-end run: team \<^verbatim>\<open>TEAM_TEST\<close>, job \<^verbatim>\<open>Tester\<close>, the default colour (four blank
  answers), any description line \<open>d\<close> (a blank one gives the default text), one model and one
  weapon (each followed by \<^verbatim>\<open>n\<close>), the default command, 2 players, salary 50, licence \<^verbatim>\<open>y\<close>,
  vote \<^verbatim>\<open>n\<close>, demote \<^verbatim>\<open>n\<close>, and seven blank answers for the spawn settings. \<open>create_job\<close>
  returns exactly the block below, stores it in the session under the team and job name,
  leaves the lines after these unread and touches no file.
\<close>

theorem create_job_end_to_end:
  "\<exists>t w'. create_job self
     \<lparr>stdin = [''TEAM_TEST'', ''Tester'', [], [], [], [], d, ''models/player/urban.mdl'', ''n'',
               ''weapon_pistol'', ''n'', [], ''2'', ''50'', ''y'', ''n'', ''n'',
               [], [], [], [], [], [], []] @ rest,
      stdout = out, files = fs\<rparr>
     = Inr (t, self\<lparr>jobs := jobs self
                   @ [\<lparr>team_name = ''TEAM_TEST'', job_name = ''Tester'', code = t\<rparr>]\<rparr>, w')
   \<and> stdin w' = rest \<and> files w' = fs
   \<and> t = ''TEAM_TEST = DarkRP.createJob('' @ [DQ] @ ''Tester'' @ [DQ] @ '', {'' @ [NL]
          @ ''    color = Color(50, 50, 255, 255),'' @ [NL]
          @ ''    model = '' @ [DQ] @ ''models/player/urban.mdl'' @ [DQ] @ '','' @ [NL]
          @ ''    description = ['' @ ''[''
              @ escape_newlines (if strip d = [] then ''A custom DarkRP job'' else strip d)
              @ '']],'' @ [NL]
          @ ''    weapons = {'' @ [DQ] @ ''weapon_pistol'' @ [DQ] @ ''},'' @ [NL]
          @ ''    command = '' @ [DQ] @ ''tester'' @ [DQ] @ '','' @ [NL]
          @ ''    max = 2,'' @ [NL]
          @ ''    salary = 50,'' @ [NL]
          @ ''    admin = 0,'' @ [NL]
          @ ''    vote = false,'' @ [NL]
          @ ''    hasLicense = true,'' @ [NL]
          @ ''    candemote = false,'' @ [NL]
          @ [NL]
          @ ''    PlayerSpawn = function(ply)'' @ [NL]
          @ ''        ply:SetHealth(100)'' @ [NL]
          @ ''        ply:SetMaxHealth(100)'' @ [NL]
          @ ''        ply:SetArmor(0)'' @ [NL]
          @ ''        ply:SetMaxArmor(0)'' @ [NL]
          @ ''        ply:SetWalkSpeed(200)'' @ [NL]
          @ ''        ply:SetRunSpeed(400)'' @ [NL]
          @ ''        ply:SetJumpPower(200)'' @ [NL]
          @ ''    end'' @ [NL]
          @ ''})''"
  by (simp add: run_simps)

text \<open>The validated prompt itself does what its name says: what it returns is in range, and
  it never lets a \<^verbatim>\<open>ValueError\<close> out (it can only fail when the input ends).\<close>

lemma get_validated_int_result:
  "get_validated_int p lo hi d w = Inr (i, w') \<Longrightarrow> lo \<le> i \<and> i \<le> hi"
proof (induction ls \<equiv> "stdin w" arbitrary: w)
  case Nil
  then show ?case
    by (subst (asm) get_validated_int_unfold) simp
next
  case (Cons l ls)
  let ?w1 = "w\<lparr>stdin := ls, stdout := stdout w @ [prompt_text p (Some d)]\<rparr>"
  have again: "lo \<le> i \<and> i \<le> hi" if "get_validated_int p lo hi d (py_print m ?w1) = Inr (i, w')" for m
    using that by (intro Cons.hyps(1)) (simp_all add: py_print_def)
  from Cons.prems Cons.hyps(2) [symmetric] show ?case
    by (subst (asm) get_validated_int_unfold)
       (auto split: option.splits if_splits dest: again)
qed

lemma get_validated_int_error:
  "get_validated_int p lo hi d w = Inl e \<Longrightarrow> e = EOFError"
proof (induction ls \<equiv> "stdin w" arbitrary: w)
  case Nil
  then show ?case
    by (subst (asm) get_validated_int_unfold) simp
next
  case (Cons l ls)
  let ?w1 = "w\<lparr>stdin := ls, stdout := stdout w @ [prompt_text p (Some d)]\<rparr>"
  have again: "e = EOFError" if "get_validated_int p lo hi d (py_print m ?w1) = Inl e" for m
    using that by (intro Cons.hyps(1)) (simp_all add: py_print_def)
  from Cons.prems Cons.hyps(2) [symmetric] show ?case
    by (subst (asm) get_validated_int_unfold)
       (auto split: option.splits if_splits dest: again)
qed

text \<open>
  C10. Whatever the answers, a block that \<open>create_job\<close> renders has the line
  \<^verbatim>\<open>    admin = 0,\<close> right before the \<^verbatim>\<open>vote\<close> line, and that block is the one stored in the
  session. No prompt feeds this line: it is a constant of the template.
\<close>

lemma job_template_admin:
  "\<exists>pre post. job_template tn jn c m d ws cmd mp s v l cd sp
     = pre @ [NL] @ ''    admin = 0,'' @ [NL] @ ''    vote = '' @ post"
  unfolding job_template_def
  apply (rule exI [of _ "tn @ '' = DarkRP.createJob('' @ [DQ] @ jn @ [DQ] @ '', {'' @ [NL]
     @ ''    color = '' @ c @ '','' @ [NL]
     @ ''    model = '' @ m @ '','' @ [NL]
     @ ''    description = ['' @ ''['' @ d @ '']],'' @ [NL]
     @ ''    weapons = '' @ ws @ '','' @ [NL]
     @ ''    command = '' @ [DQ] @ cmd @ [DQ] @ '','' @ [NL]
     @ ''    max = '' @ str_int mp @ '','' @ [NL]
     @ ''    salary = '' @ str_int s @ '',''"])
  apply (rule exI [of _ "lower (str_bool v) @ '','' @ [NL]
     @ ''    hasLicense = '' @ lower (str_bool l) @ '','' @ [NL]
     @ ''    candemote = '' @ lower (str_bool cd) @ '','' @ [NL]
     @ [NL]
     @ ''    PlayerSpawn = function(ply)'' @ [NL]
     @ ''        ply:SetHealth('' @ str_int (health sp) @ '')'' @ [NL]
     @ ''        ply:SetMaxHealth('' @ str_int (max_health sp) @ '')'' @ [NL]
     @ ''        ply:SetArmor('' @ str_int (armor sp) @ '')'' @ [NL]
     @ ''        ply:SetMaxArmor('' @ str_int (max_armor sp) @ '')'' @ [NL]
     @ ''        ply:SetWalkSpeed('' @ str_int (walk_speed sp) @ '')'' @ [NL]
     @ ''        ply:SetRunSpeed('' @ str_int (run_speed sp) @ '')'' @ [NL]
     @ ''        ply:SetJumpPower('' @ str_int (jump_power sp) @ '')'' @ [NL]
     @ ''    end'' @ [NL]
     @ ''})''"])
  apply simp
  done

theorem create_job_admin_constant:
  assumes "create_job self w = Inr (t, self', w')"
  shows "(\<exists>pre post. t = pre @ [NL] @ ''    admin = 0,'' @ [NL] @ ''    vote = '' @ post)
         \<and> code (last (jobs self')) = t"
proof -
  define has_admin :: "string \<Rightarrow> bool" where
    "has_admin u \<longleftrightarrow>
       (\<exists>pre post. u = pre @ [NL] @ ''    admin = 0,'' @ [NL] @ ''    vote = '' @ post)" for u
  have template: "has_admin (job_template tn jn c m d ws cmd mp s v l cd sp)"
    for tn jn c m d ws cmd mp s v l cd sp
    unfolding has_admin_def by (rule job_template_admin)
  have "has_admin t \<and> code (last (jobs self')) = t"
    using assms unfolding create_job_def
    by (auto simp: Let_def template elim!: bind_err_InrE)
  then show ?thesis
    unfolding has_admin_def .
qed

theorem create_job_admin_constant_witness:
  "\<exists>t g w'. create_job \<lparr>jobs = []\<rparr>
     \<lparr>stdin = [''team_cop'', ''City Cop'', ''10'', ''20'', ''30'', ''40'', ''Keeps order'',
               ''a.mdl'', ''y'', ''b.mdl'', [], ''weapon_a'', ''n'', ''cop'', ''4'', ''100'',
               ''n'', ''y'', ''y'', ''150'', [], ''25'', [], [], [], []],
      stdout = [], files = Map.empty\<rparr> = Inr (t, g, w')
   \<and> (\<exists>pre post. t = pre @ [NL] @ ''    admin = 0,'' @ [NL] @ ''    vote = '' @ post)
   \<and> code (last (jobs g)) = t"
proof -
  let ?w = "\<lparr>stdin = [''team_cop'', ''City Cop'', ''10'', ''20'', ''30'', ''40'', ''Keeps order'',
               ''a.mdl'', ''y'', ''b.mdl'', [], ''weapon_a'', ''n'', ''cop'', ''4'', ''100'',
               ''n'', ''y'', ''y'', ''150'', [], ''25'', [], [], [], []],
      stdout = [], files = Map.empty\<rparr>"
  have "\<exists>t g w'. create_job \<lparr>jobs = []\<rparr> ?w = Inr (t, g, w')"
    by (simp add: run_simps)
  then obtain t g w' where run: "create_job \<lparr>jobs = []\<rparr> ?w = Inr (t, g, w')"
    by blast
  from run create_job_admin_constant [OF run] show ?thesis
    by blast
qed

subsection \<open>Saving a session that has jobs\<close>

lemma str_nat_length: "n < 10 ^ k \<Longrightarrow> 0 < k \<Longrightarrow> length (str_nat n) \<le> k"
proof (induction n arbitrary: k rule: str_nat.induct)
  case (1 n)
  show ?case
  proof (cases "n < 10")
    case True
    then show ?thesis
      using "1.prems" by (subst str_nat.simps) simp
  next
    case False
    then obtain j where k: "k = Suc j" and j: "0 < j"
      using "1.prems" by (cases k; cases "k - 1") auto
    have "n div 10 < 10 ^ j"
      using "1.prems"(1) k by (simp add: less_mult_imp_div_less mult.commute)
    then have "length (str_nat (n div 10)) \<le> j"
      using "1.IH" False j by simp
    then show ?thesis
      using False k by (subst str_nat.simps) simp
  qed
qed

lemma zero_is_digit: "is_digit (CHR ''0'')"
  by (simp add: is_digit_def digits_def)

lemma digits_value_zeros: "digits_value (replicate m (CHR ''0'') @ s) = digits_value s"
proof -
  have "foldl (\<lambda>acc c. 10 * acc + digit_val c) 0 (replicate m (CHR ''0'')) = 0"
    by (induction m) (simp_all add: digit_val_def digits_def)
  then show ?thesis
    by (simp add: digits_value_def zero_is_digit)
qed

lemma zpad_digits: "list_all is_digit (zpad k n)"
  using str_nat_digits [of n] by (auto simp: zpad_def list_all_iff zero_is_digit)

lemma zpad_field: "n < 10 ^ k \<Longrightarrow> 0 < k \<Longrightarrow> decimal_field k n (zpad k n)"
  using str_nat_length [of n k]
  by (simp add: decimal_field_def zpad_digits)
     (simp add: zpad_def digits_value_zeros digits_value_str_nat)

lemma write_loop:
  "foldl (\<lambda>f job. f @ code job @ [NL, NL]) f0 js
     = f0 @ concat (map (\<lambda>job. code job @ [NL, NL]) js)"
  by (induction js arbitrary: f0) simp_all

lemma save_jobs_nonempty:
  assumes "jobs self \<noteq> []"
  shows "save_jobs now1 now2 self w =
     (self,
      w\<lparr>files := (files w)
           (''darkrp_jobs_'' @ strftime_compact now1 @ ''.lua'' \<mapsto>
              ''-- DarkRP Jobs generated with Python Script'' @ [NL]
              @ ''-- Created on: '' @ strftime_human now2 @ [NL, NL]
              @ concat (map (\<lambda>job. code job @ [NL, NL]) (jobs self))),
        stdout := stdout w
           @ [NL # [CHR 0xE2, CHR 0x9C, CHR 0x85] @ '' Jobs saved to: ''
              @ ''darkrp_jobs_'' @ strftime_compact now1 @ ''.lua'' @ [NL]]\<rparr>)"
  using assms by (simp add: save_jobs_def Let_def write_loop py_print_def)


lemma valid_datetime_fields:
  assumes "valid_datetime d"
  shows "decimal_field 4 (year d) (zpad 4 (year d))"
    and "decimal_field 2 (month d) (zpad 2 (month d))"
    and "decimal_field 2 (day d) (zpad 2 (day d))"
    and "decimal_field 2 (hour d) (zpad 2 (hour d))"
    and "decimal_field 2 (minute d) (zpad 2 (minute d))"
    and "decimal_field 2 (second d) (zpad 2 (second d))"
  using assms by (simp_all add: valid_datetime_def zpad_field)

text \<open>
  C7. With at least one job in the session and clock readings of a running system,
  \<open>save_jobs\<close> writes one file. Its name is \<^verbatim>\<open>darkrp_jobs_\<close>, the year in four digits, month and
  day in two digits each, an underscore, hour, minute and second in two digits each, and
  \<^verbatim>\<open>.lua\<close>, all of the first clock reading. Its content is the attribution line, the line
  \<^verbatim>\<open>-- Created on: DD.MM.YYYY HH:MM:SS\<close> of the second clock reading, an empty line, and then
  for each job of the session, in order, its code and two line feeds. Nothing else changes
  but the message on standard output.
\<close>

theorem save_jobs_file:
  assumes "jobs self \<noteq> []" and "valid_datetime now1" and "valid_datetime now2"
  shows "\<exists>Y1 M1 D1 h1 m1 s1 Y2 M2 D2 h2 m2 s2.
     save_jobs now1 now2 self w =
       (self,
        w\<lparr>files := (files w)
             (''darkrp_jobs_'' @ Y1 @ M1 @ D1 @ ''_'' @ h1 @ m1 @ s1 @ ''.lua'' \<mapsto>
                ''-- DarkRP Jobs generated with Python Script'' @ [NL]
                @ ''-- Created on: '' @ D2 @ ''.'' @ M2 @ ''.'' @ Y2 @ '' ''
                   @ h2 @ '':'' @ m2 @ '':'' @ s2 @ [NL]
                @ [NL]
                @ concat (map (\<lambda>job. code job @ [NL, NL]) (jobs self))),
          stdout := stdout w
             @ [NL # [CHR 0xE2, CHR 0x9C, CHR 0x85] @ '' Jobs saved to: ''
                @ ''darkrp_jobs_'' @ Y1 @ M1 @ D1 @ ''_'' @ h1 @ m1 @ s1 @ ''.lua'' @ [NL]]\<rparr>)
     \<and> decimal_field 4 (year now1) Y1 \<and> decimal_field 2 (month now1) M1
     \<and> decimal_field 2 (day now1) D1 \<and> decimal_field 2 (hour now1) h1
     \<and> decimal_field 2 (minute now1) m1 \<and> decimal_field 2 (second now1) s1
     \<and> decimal_field 4 (year now2) Y2 \<and> decimal_field 2 (month now2) M2
     \<and> decimal_field 2 (day now2) D2 \<and> decimal_field 2 (hour now2) h2
     \<and> decimal_field 2 (minute now2) m2 \<and> decimal_field 2 (second now2) s2"
proof (intro exI conjI)
  show "save_jobs now1 now2 self w =
       (self,
        w\<lparr>files := (files w)
             (''darkrp_jobs_'' @ zpad 4 (year now1) @ zpad 2 (month now1) @ zpad 2 (day now1)
                @ ''_'' @ zpad 2 (hour now1) @ zpad 2 (minute now1) @ zpad 2 (second now1)
                @ ''.lua'' \<mapsto>
                ''-- DarkRP Jobs generated with Python Script'' @ [NL]
                @ ''-- Created on: '' @ zpad 2 (day now2) @ ''.'' @ zpad 2 (month now2) @ ''.''
                   @ zpad 4 (year now2) @ '' '' @ zpad 2 (hour now2) @ '':''
                   @ zpad 2 (minute now2) @ '':'' @ zpad 2 (second now2) @ [NL]
                @ [NL]
                @ concat (map (\<lambda>job. code job @ [NL, NL]) (jobs self))),
          stdout := stdout w
             @ [NL # [CHR 0xE2, CHR 0x9C, CHR 0x85] @ '' Jobs saved to: ''
                @ ''darkrp_jobs_'' @ zpad 4 (year now1) @ zpad 2 (month now1)
                @ zpad 2 (day now1) @ ''_'' @ zpad 2 (hour now1) @ zpad 2 (minute now1)
                @ zpad 2 (second now1) @ ''.lua'' @ [NL]]\<rparr>)"
    by (simp add: save_jobs_nonempty [OF assms(1)] strftime_compact_def strftime_human_def)
qed (rule valid_datetime_fields [OF assms(2)] valid_datetime_fields [OF assms(3)])+

theorem save_jobs_file_witness:
  "save_jobs \<lparr>year = 2026, month = 11, day = 4, hour = 9, minute = 40, second = 59\<rparr>
             \<lparr>year = 2026, month = 11, day = 4, hour = 9, minute = 41, second = 0\<rparr>
             \<lparr>jobs = [\<lparr>team_name = ''TEAM_A'', job_name = ''A'', code = ''TEAM_A = 1''\<rparr>,
                      \<lparr>team_name = ''TEAM_B'', job_name = ''B'', code = ''TEAM_B = 2''\<rparr>]\<rparr>
             \<lparr>stdin = [], stdout = [], files = Map.empty\<rparr>
   = (\<lparr>jobs = [\<lparr>team_name = ''TEAM_A'', job_name = ''A'', code = ''TEAM_A = 1''\<rparr>,
               \<lparr>team_name = ''TEAM_B'', job_name = ''B'', code = ''TEAM_B = 2''\<rparr>]\<rparr>,
      \<lparr>stdin = [],
       stdout = [NL # [CHR 0xE2, CHR 0x9C, CHR 0x85]
                 @ '' Jobs saved to: darkrp_jobs_20261104_094059.lua'' @ [NL]],
       files = [''darkrp_jobs_20261104_094059.lua'' \<mapsto>
                  ''-- DarkRP Jobs generated with Python Script'' @ [NL]
                  @ ''-- Created on: 04.11.2026 09:41:00'' @ [NL]
                  @ [NL]
                  @ ''TEAM_A = 1'' @ [NL, NL]
                  @ ''TEAM_B = 2'' @ [NL, NL]]\<rparr>)"
proof -
  let ?t1 = "\<lparr>year = 2026, month = 11, day = 4, hour = 9, minute = 40, second = 59\<rparr>"
  let ?t2 = "\<lparr>year = 2026, month = 11, day = 4, hour = 9, minute = 41, second = 0\<rparr>"
  let ?g = "\<lparr>jobs = [\<lparr>team_name = ''TEAM_A'', job_name = ''A'', code = ''TEAM_A = 1''\<rparr>,
                      \<lparr>team_name = ''TEAM_B'', job_name = ''B'', code = ''TEAM_B = 2''\<rparr>]\<rparr>"
  have session: "jobs ?g \<noteq> []"
    by simp
  have clock: "valid_datetime ?t1" "valid_datetime ?t2"
    by (simp_all add: valid_datetime_def)
  have stamps: "strftime_compact ?t1 = ''20261104_094059''"
               "strftime_human ?t2 = ''04.11.2026 09:41:00''"
    by (simp_all add: strftime_compact_def strftime_human_def zpad_def str_nat.simps
        digit_char_def digits_def)
  show ?thesis
    using save_jobs_file [OF session clock, of "\<lparr>stdin = [], stdout = [], files = Map.empty\<rparr>"]
    by (simp add: save_jobs_nonempty stamps)
qed

text \<open>
  C9. Saving never changes the session. So two saves in a row, on the same session, write the
  same body after their headers; when the two file names differ (the clock readings differ
  in the second), both files exist afterwards, each with its own header and that body.
\<close>

theorem save_jobs_twice:
  assumes "save_jobs now1 now2 self w = (self1, w1)"
      and "save_jobs now3 now4 self1 w1 = (self2, w2)"
  shows "self1 = self \<and> self2 = self
         \<and> (jobs self \<noteq> [] \<longrightarrow> strftime_compact now1 \<noteq> strftime_compact now3 \<longrightarrow>
              files w2 (''darkrp_jobs_'' @ strftime_compact now1 @ ''.lua'')
                = Some (''-- DarkRP Jobs generated with Python Script'' @ [NL]
                        @ ''-- Created on: '' @ strftime_human now2 @ [NL, NL]
                        @ concat (map (\<lambda>job. code job @ [NL, NL]) (jobs self)))
            \<and> files w2 (''darkrp_jobs_'' @ strftime_compact now3 @ ''.lua'')
                = Some (''-- DarkRP Jobs generated with Python Script'' @ [NL]
                        @ ''-- Created on: '' @ strftime_human now4 @ [NL, NL]
                        @ concat (map (\<lambda>job. code job @ [NL, NL]) (jobs self))))"
proof -
  have same: "self1 = self" "self2 = self"
    using assms by (auto simp: save_jobs_def Let_def split: if_splits)
  moreover have "files w2 (''darkrp_jobs_'' @ strftime_compact now1 @ ''.lua'')
                = Some (''-- DarkRP Jobs generated with Python Script'' @ [NL]
                        @ ''-- Created on: '' @ strftime_human now2 @ [NL, NL]
                        @ concat (map (\<lambda>job. code job @ [NL, NL]) (jobs self)))
            \<and> files w2 (''darkrp_jobs_'' @ strftime_compact now3 @ ''.lua'')
                = Some (''-- DarkRP Jobs generated with Python Script'' @ [NL]
                        @ ''-- Created on: '' @ strftime_human now4 @ [NL, NL]
                        @ concat (map (\<lambda>job. code job @ [NL, NL]) (jobs self)))"
    if "jobs self \<noteq> []" and "strftime_compact now1 \<noteq> strftime_compact now3"
    using assms that same by (auto simp: save_jobs_nonempty)
  ultimately show ?thesis
    by blast
qed

theorem save_jobs_twice_witness:
  "\<exists>g1 w1 g2 w2.
     save_jobs \<lparr>year = 2026, month = 11, day = 4, hour = 9, minute = 40, second = 59\<rparr>
               \<lparr>year = 2026, month = 11, day = 4, hour = 9, minute = 41, second = 0\<rparr>
               \<lparr>jobs = [\<lparr>team_name = ''TEAM_A'', job_name = ''A'', code = ''TEAM_A = 1''\<rparr>]\<rparr>
               \<lparr>stdin = [], stdout = [], files = Map.empty\<rparr> = (g1, w1)
   \<and> save_jobs \<lparr>year = 2026, month = 11, day = 4, hour = 9, minute = 42, second = 7\<rparr>
               \<lparr>year = 2026, month = 11, day = 4, hour = 9, minute = 42, second = 7\<rparr>
               g1 w1 = (g2, w2)
   \<and> g1 = \<lparr>jobs = [\<lparr>team_name = ''TEAM_A'', job_name = ''A'', code = ''TEAM_A = 1''\<rparr>]\<rparr>
   \<and> g2 = g1
   \<and> files w2 ''darkrp_jobs_20261104_094059.lua''
       = Some (''-- DarkRP Jobs generated with Python Script'' @ [NL]
               @ ''-- Created on: 04.11.2026 09:41:00'' @ [NL, NL]
               @ ''TEAM_A = 1'' @ [NL, NL])
   \<and> files w2 ''darkrp_jobs_20261104_094207.lua''
       = Some (''-- DarkRP Jobs generated with Python Script'' @ [NL]
               @ ''-- Created on: 04.11.2026 09:42:07'' @ [NL, NL]
               @ ''TEAM_A = 1'' @ [NL, NL])"
proof -
  let ?t1 = "\<lparr>year = 2026, month = 11, day = 4, hour = 9, minute = 40, second = 59\<rparr>"
  let ?t2 = "\<lparr>year = 2026, month = 11, day = 4, hour = 9, minute = 41, second = 0\<rparr>"
  let ?t3 = "\<lparr>year = 2026, month = 11, day = 4, hour = 9, minute = 42, second = 7\<rparr>"
  let ?g = "\<lparr>jobs = [\<lparr>team_name = ''TEAM_A'', job_name = ''A'', code = ''TEAM_A = 1''\<rparr>]\<rparr>"
  let ?w = "\<lparr>stdin = [], stdout = [], files = Map.empty\<rparr>"
  obtain g1 w1 where first: "save_jobs ?t1 ?t2 ?g ?w = (g1, w1)"
    by (cases "save_jobs ?t1 ?t2 ?g ?w")
  obtain g2 w2 where second: "save_jobs ?t3 ?t3 g1 w1 = (g2, w2)"
    by (cases "save_jobs ?t3 ?t3 g1 w1")
  have stamps: "strftime_compact ?t1 = ''20261104_094059''"
               "strftime_human ?t2 = ''04.11.2026 09:41:00''"
               "strftime_compact ?t3 = ''20261104_094207''"
               "strftime_human ?t3 = ''04.11.2026 09:42:07''"
    by (simp_all add: strftime_compact_def strftime_human_def zpad_def str_nat.simps
        digit_char_def digits_def)
  from save_jobs_twice [OF first second] first second show ?thesis
    by (simp add: stamps)
qed

subsection \<open>Collecting models and weapons\<close>

lemma answer_default:
  "lower (if strip a = [] then ''n'' else strip a) = ''y'' \<longleftrightarrow> lower (strip a) = ''y''"
  by (simp add: lower_def lower_char_def upper_letters_def lower_letters_def)

text \<open>
  C2, as the code has it. One round of either loop reads the next line. If it is blank the loop
  returns (with the built-in default when nothing was collected). Otherwise the entry is
  collected and the loop asks whether to add another: with any answer but \<^verbatim>\<open>y\<close> or \<^verbatim>\<open>Y\<close>
  (a blank answer counts as \<^verbatim>\<open>n\<close>) the loop returns; with \<^verbatim>\<open>y\<close> it goes round again, on the
  remaining lines. So the loop ends on a blank entry or on a refusal to add another, and
  asks for the next entry only after the answer \<^verbatim>\<open>y\<close>.
\<close>

theorem collection_round:
  assumes "stdin w = l # rest"
  shows "(strip l = [] \<longrightarrow>
            models_loop ms w
              = Inr (if ms = [] then [DQ # ''models/player/urban.mdl'' @ [DQ]] else ms,
                     w\<lparr>stdin := rest,
                       stdout := stdout w @ [''Model path (e.g., models/player/urban.mdl): '']\<rparr>)
          \<and> weapons_loop ms w
              = Inr (if ms = [] then [DQ # ''weapon_pistol'' @ [DQ]] else ms,
                     w\<lparr>stdin := rest,
                       stdout := stdout w @ [''Weapon class (e.g., weapon_pistol): '']\<rparr>))
       \<and> (strip l \<noteq> [] \<longrightarrow> rest = a # ls \<longrightarrow> lower (strip a) \<noteq> ''y'' \<longrightarrow>
            models_loop ms w
              = Inr (ms @ [DQ # strip l @ [DQ]],
                     w\<lparr>stdin := ls,
                       stdout := stdout w @ [''Model path (e.g., models/player/urban.mdl): '',
                                             ''Add another model? (y/n) [n]: '']\<rparr>)
          \<and> weapons_loop ms w
              = Inr (ms @ [DQ # strip l @ [DQ]],
                     w\<lparr>stdin := ls,
                       stdout := stdout w @ [''Weapon class (e.g., weapon_pistol): '',
                                             ''Add another weapon? (y/n) [n]: '']\<rparr>))
       \<and> (strip l \<noteq> [] \<longrightarrow> rest = a # ls \<longrightarrow> lower (strip a) = ''y'' \<longrightarrow>
            models_loop ms w
              = models_loop (ms @ [DQ # strip l @ [DQ]])
                  (w\<lparr>stdin := ls,
                     stdout := stdout w @ [''Model path (e.g., models/player/urban.mdl): '',
                                           ''Add another model? (y/n) [n]: '']\<rparr>)
          \<and> weapons_loop ms w
              = weapons_loop (ms @ [DQ # strip l @ [DQ]])
                  (w\<lparr>stdin := ls,
                     stdout := stdout w @ [''Weapon class (e.g., weapon_pistol): '',
                                           ''Add another weapon? (y/n) [n]: '']\<rparr>))"
proof -
  note models = models_loop_unfold [of ms w, unfolded assms list.case]
  note weapons = weapons_loop_unfold [of ms w, unfolded assms list.case]
  show ?thesis
    by (simp add: models weapons answer_default)
qed

theorem collection_round_witness:
  "models_loop [] \<lparr>stdin = [''a.mdl'', ''Y'', '' b.mdl '', [], ''next''], stdout = [],
                    files = Map.empty\<rparr>
     = Inr ([DQ # ''a.mdl'' @ [DQ], DQ # ''b.mdl'' @ [DQ]],
            \<lparr>stdin = [''next''],
             stdout = [''Model path (e.g., models/player/urban.mdl): '',
                       ''Add another model? (y/n) [n]: '',
                       ''Model path (e.g., models/player/urban.mdl): '',
                       ''Add another model? (y/n) [n]: ''],
             files = Map.empty\<rparr>)
   \<and> weapons_loop [DQ # ''weapon_a'' @ [DQ]]
         \<lparr>stdin = ['' '', ''next''], stdout = [], files = Map.empty\<rparr>
     = Inr ([DQ # ''weapon_a'' @ [DQ]],
            \<lparr>stdin = [''next''], stdout = [''Weapon class (e.g., weapon_pistol): ''],
             files = Map.empty\<rparr>)"
proof -
  let ?w1 = "\<lparr>stdin = [''a.mdl'', ''Y'', '' b.mdl '', [], ''next''], stdout = [],
              files = Map.empty\<rparr>"
  let ?w2 = "\<lparr>stdin = ['' b.mdl '', [], ''next''],
              stdout = [''Model path (e.g., models/player/urban.mdl): '',
                        ''Add another model? (y/n) [n]: ''],
              files = Map.empty\<rparr>"
  let ?w3 = "\<lparr>stdin = ['' '', ''next''], stdout = [], files = Map.empty\<rparr>"
  have answers: "strip ''a.mdl'' = ''a.mdl''" "strip '' b.mdl '' = ''b.mdl''" "strip '' '' = []"
    "strip [] = []" "lower (strip ''Y'') = ''y''" "lower [] \<noteq> ''y''"
    by (simp_all add: strip_def is_space_def lower_def lower_char_def upper_letters_def
        lower_letters_def)
  have l1: "stdin ?w1 = ''a.mdl'' # [''Y'', '' b.mdl '', [], ''next'']"
    and l2: "stdin ?w2 = '' b.mdl '' # [[], ''next'']"
    and l3: "stdin ?w3 = '' '' # [''next'']"
    by simp_all
  from collection_round [OF l1, where a = "''Y''" and ls = "['' b.mdl '', [], ''next'']"
                            and ms = "[]"]
       collection_round [OF l2, where a = "[]" and ls = "[''next'']"
                            and ms = "[DQ # ''a.mdl'' @ [DQ]]"]
       collection_round [OF l3, where ms = "[DQ # ''weapon_a'' @ [DQ]]"]
  show ?thesis
    by (simp add: answers)
qed

text \<open>
  The claim C2 as stated fails: in the run below no line that is read is blank, yet each loop
  returns after the first entry, and the second entry is never asked for (it is still
  unread, and the output holds one entry prompt only).
\<close>

theorem collection_stops_on_answer:
  "get_models_input \<lparr>stdin = [''a.mdl'', ''n'', ''b.mdl'', ''n''], stdout = [],
                      files = Map.empty\<rparr>
     = Inr (DQ # ''a.mdl'' @ [DQ],
            \<lparr>stdin = [''b.mdl'', ''n''],
             stdout = [NL # ''--- Player Models ---'' @ [NL],
                       ''Model path (e.g., models/player/urban.mdl): '',
                       ''Add another model? (y/n) [n]: ''],
             files = Map.empty\<rparr>)
   \<and> get_weapons_input \<lparr>stdin = [''weapon_a'', ''n'', ''weapon_b'', ''n''], stdout = [],
                         files = Map.empty\<rparr>
     = Inr (''{'' @ [DQ] @ ''weapon_a'' @ [DQ] @ ''}'',
            \<lparr>stdin = [''weapon_b'', ''n''],
             stdout = [NL # ''--- Weapons ---'' @ [NL],
                       ''Weapon class (e.g., weapon_pistol): '',
                       ''Add another weapon? (y/n) [n]: ''],
             files = Map.empty\<rparr>)
   \<and> strip ''a.mdl'' \<noteq> [] \<and> strip ''weapon_a'' \<noteq> [] \<and> strip ''n'' \<noteq> []"
  by (simp add: run_simps)

text \<open>What the loops return for a complete dialogue, from any list collected before; and every
  run of a loop that returns has read a complete dialogue.\<close>

lemma models_loop_entries:
  assumes "entry_lines es ls" and "stdin w = ls @ rest"
  shows "\<exists>w'. models_loop ms w
           = Inr (if ms @ map (\<lambda>e. DQ # e @ [DQ]) es = []
                  then [DQ # ''models/player/urban.mdl'' @ [DQ]]
                  else ms @ map (\<lambda>e. DQ # e @ [DQ]) es, w')
         \<and> stdin w' = rest"
  using assms
proof (induction arbitrary: ms w rule: entry_lines.induct)
  case (blank b)
  then show ?case
    by (subst models_loop_unfold) simp
next
  case (last e a)
  then show ?case
    by (subst models_loop_unfold) (simp add: answer_default)
next
  case (more e a es ls)
  let ?w = "w\<lparr>stdin := ls @ rest,
              stdout := stdout w @ [''Model path (e.g., models/player/urban.mdl): '',
                                    ''Add another model? (y/n) [n]: '']\<rparr>"
  have "models_loop ms w = models_loop (ms @ [DQ # strip e @ [DQ]]) ?w"
    using more.hyps(1,2) more.prems by (subst models_loop_unfold) (simp add: answer_default)
  moreover have "stdin ?w = ls @ rest"
    by simp
  ultimately show ?case
    using more.IH [of ?w "ms @ [DQ # strip e @ [DQ]]"] by simp
qed

lemma weapons_loop_entries:
  assumes "entry_lines es ls" and "stdin w = ls @ rest"
  shows "\<exists>w'. weapons_loop ws w
           = Inr (if ws @ map (\<lambda>e. DQ # e @ [DQ]) es = []
                  then [DQ # ''weapon_pistol'' @ [DQ]]
                  else ws @ map (\<lambda>e. DQ # e @ [DQ]) es, w')
         \<and> stdin w' = rest"
  using assms
proof (induction arbitrary: ws w rule: entry_lines.induct)
  case (blank b)
  then show ?case
    by (subst weapons_loop_unfold) simp
next
  case (last e a)
  then show ?case
    by (subst weapons_loop_unfold) (simp add: answer_default)
next
  case (more e a es ls)
  let ?w = "w\<lparr>stdin := ls @ rest,
              stdout := stdout w @ [''Weapon class (e.g., weapon_pistol): '',
                                    ''Add another weapon? (y/n) [n]: '']\<rparr>"
  have "weapons_loop ws w = weapons_loop (ws @ [DQ # strip e @ [DQ]]) ?w"
    using more.hyps(1,2) more.prems by (subst weapons_loop_unfold) (simp add: answer_default)
  moreover have "stdin ?w = ls @ rest"
    by simp
  ultimately show ?case
    using more.IH [of ?w "ws @ [DQ # strip e @ [DQ]]"] by simp
qed

lemma models_loop_complete:
  "models_loop ms w = Inr (r, w') \<Longrightarrow> \<exists>es ls. entry_lines es ls \<and> stdin w = ls @ stdin w'"
proof (induction n \<equiv> "length (stdin w)" arbitrary: w ms rule: less_induct)
  case less
  show ?case
  proof (cases "stdin w")
    case Nil
    with less.prems show ?thesis
      by (subst (asm) models_loop_unfold) simp
  next
    case (Cons l rest)
    note round = models_loop_unfold [of ms w, unfolded Cons list.case]
    show ?thesis
    proof (cases "strip l = []")
      case True
      then have "stdin w' = rest"
        using less.prems round by auto
      moreover have "entry_lines [] [l]"
        using True by (rule entry_lines.blank)
      ultimately show ?thesis
        using Cons by fastforce
    next
      case False
      then obtain a rest' where rest: "rest = a # rest'"
        using less.prems round by (cases rest) auto
      show ?thesis
      proof (cases "lower (strip a) = ''y''")
        case True
        let ?w = "w\<lparr>stdin := rest',
                    stdout := stdout w @ [''Model path (e.g., models/player/urban.mdl): '',
                                          ''Add another model? (y/n) [n]: '']\<rparr>"
        have "models_loop (ms @ [DQ # strip l @ [DQ]]) ?w = Inr (r, w')"
          using less.prems round False True rest by (simp add: answer_default)
        moreover have "length (stdin ?w) < length (stdin w)"
          using Cons rest by simp
        ultimately obtain es ls where "entry_lines es ls" and "stdin ?w = ls @ stdin w'"
          using less.hyps by blast
        then have "entry_lines (strip l # es) (l # a # ls)" and "stdin w = (l # a # ls) @ stdin w'"
          using False True Cons rest by (simp_all add: entry_lines.more)
        then show ?thesis
          by blast
      next
        case no: False
        then have "stdin w' = rest'"
          using less.prems round False rest by (auto simp: answer_default)
        moreover have "entry_lines [strip l] [l, a]"
          using False no by (rule entry_lines.last)
        ultimately show ?thesis
          using Cons rest by fastforce
      qed
    qed
  qed
qed

lemma weapons_loop_complete:
  "weapons_loop ws w = Inr (r, w') \<Longrightarrow> \<exists>es ls. entry_lines es ls \<and> stdin w = ls @ stdin w'"
proof (induction n \<equiv> "length (stdin w)" arbitrary: w ws rule: less_induct)
  case less
  show ?case
  proof (cases "stdin w")
    case Nil
    with less.prems show ?thesis
      by (subst (asm) weapons_loop_unfold) simp
  next
    case (Cons l rest)
    note round = weapons_loop_unfold [of ws w, unfolded Cons list.case]
    show ?thesis
    proof (cases "strip l = []")
      case True
      then have "stdin w' = rest"
        using less.prems round by auto
      moreover have "entry_lines [] [l]"
        using True by (rule entry_lines.blank)
      ultimately show ?thesis
        using Cons by fastforce
    next
      case False
      then obtain a rest' where rest: "rest = a # rest'"
        using less.prems round by (cases rest) auto
      show ?thesis
      proof (cases "lower (strip a) = ''y''")
        case True
        let ?w = "w\<lparr>stdin := rest',
                    stdout := stdout w @ [''Weapon class (e.g., weapon_pistol): '',
                                          ''Add another weapon? (y/n) [n]: '']\<rparr>"
        have "weapons_loop (ws @ [DQ # strip l @ [DQ]]) ?w = Inr (r, w')"
          using less.prems round False True rest by (simp add: answer_default)
        moreover have "length (stdin ?w) < length (stdin w)"
          using Cons rest by simp
        ultimately obtain es ls where "entry_lines es ls" and "stdin ?w = ls @ stdin w'"
          using less.hyps by blast
        then have "entry_lines (strip l # es) (l # a # ls)" and "stdin w = (l # a # ls) @ stdin w'"
          using False True Cons rest by (simp_all add: entry_lines.more)
        then show ?thesis
          by blast
      next
        case no: False
        then have "stdin w' = rest'"
          using less.prems round False rest by (auto simp: answer_default)
        moreover have "entry_lines [strip l] [l, a]"
          using False no by (rule entry_lines.last)
        ultimately show ?thesis
          using Cons rest by fastforce
      qed
    qed
  qed
qed

text \<open>
  C3. The model literal is a trichotomy on the entries of the dialogue: none gives the quoted
  built-in default path; exactly one gives that entry in quotes, without braces; two or more
  give the quoted entries, in the order entered, separated by comma and space, in braces.
\<close>

theorem models_rendering:
  assumes "entry_lines es ls" and "stdin w = ls @ rest"
  shows "\<exists>w'. get_models_input w
           = Inr (case es of
                    [] \<Rightarrow> DQ # ''models/player/urban.mdl'' @ [DQ]
                  | [e] \<Rightarrow> DQ # e @ [DQ]
                  | e # e' # es' \<Rightarrow> ''{'' @ join '', '' (map (\<lambda>e. DQ # e @ [DQ]) es) @ ''}'',
                  w')
         \<and> stdin w' = rest"
proof -
  have "stdin (py_print (NL # ''--- Player Models ---'') w) = ls @ rest"
    using assms(2) by (simp add: py_print_def)
  from models_loop_entries [OF assms(1) this, of "[]"] show ?thesis
    by (cases es; cases "tl es") (auto simp: get_models_input_def)
qed

theorem models_rendering_witness:
  "\<exists>w'. get_models_input
          \<lparr>stdin = [''a.mdl'', ''y'', '' b.mdl '', ''no'', ''next''], stdout = [],
           files = Map.empty\<rparr>
        = Inr (''{'' @ [DQ] @ ''a.mdl'' @ [DQ] @ '', '' @ [DQ] @ ''b.mdl'' @ [DQ] @ ''}'', w')
      \<and> stdin w' = [''next'']"
proof -
  have answers: "strip ''a.mdl'' = ''a.mdl''" "strip '' b.mdl '' = ''b.mdl''"
    "lower (strip ''y'') = ''y''" "lower (strip ''no'') = ''no''"
    by (simp_all add: strip_def is_space_def lower_def lower_char_def upper_letters_def
        lower_letters_def)
  have "entry_lines [strip ''a.mdl'', strip '' b.mdl ''] [''a.mdl'', ''y'', '' b.mdl '', ''no'']"
    by (intro entry_lines.intros) (simp_all add: answers)
  then have lines: "entry_lines [''a.mdl'', ''b.mdl''] [''a.mdl'', ''y'', '' b.mdl '', ''no'']"
    by (simp add: answers)
  have "stdin \<lparr>stdin = [''a.mdl'', ''y'', '' b.mdl '', ''no'', ''next''], stdout = [],
               files = Map.empty\<rparr>
          = [''a.mdl'', ''y'', '' b.mdl '', ''no''] @ [''next'']"
    by simp
  from models_rendering [OF lines this] show ?thesis
    by simp
qed

text \<open>
  C4. The weapon literal is always in braces, also for a single entry; the list inside is
  the one-item default list exactly when the dialogue has no entry, and the quoted entries in
  order otherwise.
\<close>

theorem weapons_rendering:
  assumes "entry_lines es ls" and "stdin w = ls @ rest"
  shows "\<exists>w'. get_weapons_input w
           = Inr (''{'' @ join '', '' (if es = [] then [DQ # ''weapon_pistol'' @ [DQ]]
                                       else map (\<lambda>e. DQ # e @ [DQ]) es) @ ''}'', w')
         \<and> stdin w' = rest"
proof -
  have "stdin (py_print (NL # ''--- Weapons ---'') w) = ls @ rest"
    using assms(2) by (simp add: py_print_def)
  from weapons_loop_entries [OF assms(1) this, of "[]"] show ?thesis
    by (auto simp: get_weapons_input_def)
qed

theorem weapons_rendering_witness:
  "\<exists>w'. get_weapons_input
          \<lparr>stdin = [''weapon_a'', [], ''next''], stdout = [], files = Map.empty\<rparr>
        = Inr (''{'' @ [DQ] @ ''weapon_a'' @ [DQ] @ ''}'', w')
      \<and> stdin w' = [''next'']"
proof -
  have answers: "strip ''weapon_a'' = ''weapon_a''" "lower (strip []) = []"
    by (simp_all add: strip_def is_space_def lower_def)
  have "entry_lines [strip ''weapon_a''] [''weapon_a'', []]"
    by (intro entry_lines.intros) (simp_all add: answers)
  then have lines: "entry_lines [''weapon_a''] [''weapon_a'', []]"
    by (simp add: answers)
  have "stdin \<lparr>stdin = [''weapon_a'', [], ''next''], stdout = [], files = Map.empty\<rparr>
          = [''weapon_a'', []] @ [''next'']"
    by simp
  from weapons_rendering [OF lines this] show ?thesis
    by simp
qed

end
